theory Spec2Isabelle
  imports Main "HOL-Library.Word"
begin

unbundle bit_operations_syntax

section \<open>The hash primitive\<close>

text \<open>
  \<^verbatim>\<open>discord/experiment.py\<close> imports \<^verbatim>\<open>murmurhash32\<close> from \<^verbatim>\<open>discord/utils.py\<close>.
  Every call in the module passes \<^verbatim>\<open>signed=False\<close> and the default seed 0. Python
  strings are modelled by their UTF-8 bytes (\<^typ>\<open>string\<close> is a list of 8-bit characters).
\<close>

type_synonym u32 = "32 word"

definition rotl32 :: "u32 \<Rightarrow> nat \<Rightarrow> u32" where
  "rotl32 x r = push_bit r x OR drop_bit (32 - r) x"

definition mix_k :: "u32 \<Rightarrow> u32" where
  "mix_k k = rotl32 (k * 0xCC9E2D51) 15 * 0x1B873593"

definition mix_h :: "u32 \<Rightarrow> u32 \<Rightarrow> u32" where
  "mix_h h k = rotl32 (h XOR mix_k k) 13 * 5 + 0xE6546B64"

definition byte :: "char \<Rightarrow> u32" where
  "byte c = of_char c"

fun murmur_blocks :: "u32 \<Rightarrow> string \<Rightarrow> u32" where
  "murmur_blocks h (a # b # c # d # rest) =
     murmur_blocks
       (mix_h h (byte a OR push_bit 8 (byte b) OR push_bit 16 (byte c) OR push_bit 24 (byte d)))
       rest"
| "murmur_blocks h [a, b, c] = h XOR mix_k (byte a XOR push_bit 8 (byte b) XOR push_bit 16 (byte c))"
| "murmur_blocks h [a, b] = h XOR mix_k (byte a XOR push_bit 8 (byte b))"
| "murmur_blocks h [a] = h XOR mix_k (byte a)"
| "murmur_blocks h [] = h"

definition fmix :: "u32 \<Rightarrow> u32" where
  "fmix h0 =
     (let h1 = (h0 XOR drop_bit 16 h0) * 0x85EBCA6B;
          h2 = (h1 XOR drop_bit 13 h1) * 0xC2B2AE35
      in h2 XOR drop_bit 16 h2)"

text \<open>
  Modelled from the spec: \<^verbatim>\<open>murmurhash32\<close> of \<^verbatim>\<open>discord/utils.py\<close>, which is not among
  the source files. The spec (4.1) gives it as the standard 32-bit x86 MurmurHash3 digest
  with seed 0 over the UTF-8 bytes; unsigned output is the digest read as a number in
  \<open>0 .. 2^32 - 1\<close>, signed output the same 32 bits read as two's complement.
\<close>

definition murmurhash32 :: "string \<Rightarrow> bool \<Rightarrow> int" where
  "murmurhash32 key is_signed =
     (let w = fmix (murmur_blocks 0 key XOR of_nat (length key))
      in if is_signed then sint w else uint w)"

section \<open>Python values\<close>

text \<open>\<^verbatim>\<open>str(n)\<close> for an integer, as an f-string formats \<^verbatim>\<open>{guild.id}\<close>.\<close>

definition digit_char :: "nat \<Rightarrow> char" where
  "digit_char d = ''0123456789'' ! d"

function str_nat :: "nat \<Rightarrow> string" where
  "str_nat n = (if n < 10 then [digit_char n] else str_nat (n div 10) @ [digit_char (n mod 10)])"
  by pat_completeness auto
termination
  by (relation "measure (\<lambda>n. n)") auto

declare str_nat.simps [simp del]

definition str_int :: "int \<Rightarrow> string" where
  "str_int i = (if i < 0 then CHR ''-'' # str_nat (nat (- i)) else str_nat (nat i))"

text \<open>Truthiness of an \<^verbatim>\<open>Optional[str]\<close>: \<^verbatim>\<open>None\<close> and \<^verbatim>\<open>''\<close> are falsy.\<close>

definition truthy_str :: "string option \<Rightarrow> bool" where
  "truthy_str v = (case v of None \<Rightarrow> False | Some s \<Rightarrow> s \<noteq> [])"

text \<open>Truthiness of an optional integer: \<^verbatim>\<open>None\<close> and \<^verbatim>\<open>0\<close> are falsy.\<close>

definition truthy_int :: "int option \<Rightarrow> bool" where
  "truthy_int v = (case v of None \<Rightarrow> False | Some i \<Rightarrow> i \<noteq> 0)"

text \<open>
  The decimal numerals, read back: \<open>decimal_int s = Some i\<close> when \<open>s\<close> is the numeral
  of \<open>i\<close> in base ten, digits only, without leading zeros, with a minus sign for a
  negative number (and no \<^verbatim>\<open>-0\<close>). This is what \<^verbatim>\<open><id>\<close> stands for in a string
  \<^verbatim>\<open><key>:<id>\<close>; it is defined without \<open>str_int\<close>.
\<close>

definition is_digit :: "char \<Rightarrow> bool" where
  "is_digit c \<longleftrightarrow> c \<in> set ''0123456789''"

definition digit_value :: "char \<Rightarrow> nat" where
  "digit_value c = of_char c - 48"

definition decimal_nat :: "string \<Rightarrow> nat option" where
  "decimal_nat s =
     (if s \<noteq> [] \<and> list_all is_digit s \<and> (hd s = CHR ''0'' \<longrightarrow> s = ''0'')
      then Some (foldl (\<lambda>acc c. 10 * acc + digit_value c) 0 s)
      else None)"

definition decimal_int :: "string \<Rightarrow> int option" where
  "decimal_int s =
     (case s of
        [] \<Rightarrow> None
      | c # r \<Rightarrow>
          (if c = CHR ''-''
           then (case decimal_nat r of
                   None \<Rightarrow> None
                 | Some n \<Rightarrow> (if n = 0 then None else Some (- int n)))
           else map_option int (decimal_nat s)))"

section \<open>Data model\<close>

text \<open>
  The exceptions the module raises. \<open>NameRequired\<close> and \<open>NameMismatch\<close> are the two
  \<^verbatim>\<open>ValueError\<close>s (told apart by their message), \<open>UnknownFilterType t\<close> is the
  \<^verbatim>\<open>NotImplementedError\<close> raised for the filter type \<open>t\<close>.
\<close>

datatype error = NameRequired | NameMismatch | UnknownFilterType int

text \<open>The attributes of a \<^verbatim>\<open>Guild\<close> that the module reads.\<close>

record guild =
  guild_id :: int
  owner_id :: "int option"
  features :: "string list"
  member_count :: "int option"
  vanity_url_code :: "string option"

text \<open>
  A filter of a population is a pair \<^verbatim>\<open>(type, value)\<close>; \<^verbatim>\<open>try_enum(ExperimentFilterType, type)\<close>
  turns the type into a member of the enumeration of \<^verbatim>\<open>discord/enums.py\<close>, or into a
  placeholder when the number is not a member. One constructor per member, holding the
  fields \<^verbatim>\<open>bucket_for\<close> reads out of the value, and \<open>UnknownType\<close> for a number
  outside the enumeration.
\<close>

datatype experiment_filter =
    Feature "string list"
  | IdRange "int option" int
  | MemberCountRange "int option" int
  | Ids "int list"
  | HubType
  | HashRange string int
  | VanityUrl bool
  | UnknownType int

record rollout =
  rollout_bucket :: int
  rollout_ranges :: "(int \<times> int) list"

text \<open>
  \<^verbatim>\<open>ExperimentPopulation\<close>. Its back-reference \<^verbatim>\<open>experiment\<close> is not a field here: the
  owning experiment is an argument of \<open>population_bucket_for\<close>.
\<close>

record population =
  pop_filters :: "experiment_filter list"
  pop_rollouts :: "rollout list"

record override =
  ov_bucket :: int
  ov_ids :: "int list"

record holdout =
  ho_name :: string
  ho_bucket :: int

record guild_experiment =
  ge_hash :: int
  ge_name :: "string option"
  ge_revision :: int
  ge_populations :: "population list"
  ge_overrides :: "override list"
  ge_overrides_formatted :: "population list list"
  ge_holdout :: "holdout option"
  ge_aa_mode :: bool

record user_experiment =
  ue_name :: "string option"
  ue_hash :: int
  ue_revision :: int
  ue_assignment :: int
  ue_override :: int
  ue_population :: int
  ue_result :: "int option"
  ue_aa_mode :: bool

text \<open>
  The part of \<^verbatim>\<open>ConnectionState\<close> the module uses: the experiment objects (a store from
  addresses to objects, since a holdout writes to an object it reaches through the
  registry) and the dictionary \<^verbatim>\<open>guild_experiments\<close> from a hash to an object.
\<close>

record connection_state =
  objects :: "nat \<Rightarrow> guild_experiment"
  guild_experiments :: "int \<rightharpoonup> nat"

section \<open>Rollouts and populations\<close>

text \<open>
  The inner loop \<^verbatim>\<open>for start, end in rollout.ranges\<close> (the test of
  \<^verbatim>\<open>ExperimentRollout.__contains__\<close>): some range holds the position, bounds included.
\<close>

fun rollout_contains :: "(int \<times> int) list \<Rightarrow> int \<Rightarrow> bool" where
  "rollout_contains [] item = False"
| "rollout_contains ((start, end) # rs) item =
     (if start \<le> item \<and> item \<le> end then True else rollout_contains rs item)"

text \<open>
  \<^verbatim>\<open>GuildExperiment.result_for\<close>: the position of a guild, from the experiment's name.
\<close>

definition result_for :: "guild_experiment \<Rightarrow> guild \<Rightarrow> error + int" where
  "result_for e g =
     (if \<not> truthy_str (ge_name e) then Inl NameRequired
      else Inr (murmurhash32 (the (ge_name e) @ '':'' @ str_int (guild_id g)) False mod 10000))"

text \<open>
  One turn of the loop over the filters in \<^verbatim>\<open>ExperimentPopulation.bucket_for\<close>:
  \<open>Inr True\<close> when the loop goes on to the next filter, \<open>Inr False\<close> when the method
  returns -1, \<open>Inl\<close> when it raises. The branches are in the order of the source.
\<close>

fun filter_step :: "guild \<Rightarrow> experiment_filter \<Rightarrow> error + bool" where
  "filter_step g (Feature fs) = Inr (\<exists>feature \<in> set fs. feature \<in> set (features g))"
| "filter_step g (IdRange start end) =
     (if start \<noteq> None \<and> the start \<le> guild_id g \<and> guild_id g \<le> end then Inr True
      else if guild_id g \<le> end then Inr True
      else Inr False)"
| "filter_step g (MemberCountRange start end) =
     (case member_count g of
        None \<Rightarrow> Inr True
      | Some mc \<Rightarrow>
          (if start \<noteq> None \<and> the start \<le> mc \<and> mc \<le> end then Inr True
           else if mc \<le> end then Inr True
           else Inr False))"
| "filter_step g (Ids ids) = Inr (guild_id g \<in> set ids)"
| "filter_step g HubType = Inr True"
| "filter_step g (HashRange hash_key target) =
     (let result = murmurhash32 (hash_key @ '':'' @ str_int (guild_id g)) False;
          result' = (if result > 0 then result + result else result mod 0x100000000)
      in Inr (result' mod 10000 < target))"
| "filter_step g (VanityUrl v) = Inr (\<not> (v \<noteq> truthy_str (vanity_url_code g)))"
| "filter_step g (UnknownType t) = Inl (UnknownFilterType t)"

fun filters_loop :: "guild \<Rightarrow> experiment_filter list \<Rightarrow> error + bool" where
  "filters_loop g [] = Inr True"
| "filters_loop g (f # fs) =
     (case filter_step g f of
        Inl err \<Rightarrow> Inl err
      | Inr False \<Rightarrow> Inr False
      | Inr True \<Rightarrow> filters_loop g fs)"

text \<open>The loop over the rollouts: the bucket of the first rollout with a matching range.\<close>

fun rollouts_loop :: "rollout list \<Rightarrow> int \<Rightarrow> int" where
  "rollouts_loop [] res = - 1"
| "rollouts_loop (r # rs) res =
     (if rollout_contains (rollout_ranges r) res then rollout_bucket r else rollouts_loop rs res)"

text \<open>
  \<^verbatim>\<open>ExperimentPopulation.bucket_for(guild, _result=None)\<close>; the first argument is the
  population's \<^verbatim>\<open>experiment\<close>, read only when no position is passed in.
\<close>

definition population_bucket_for ::
  "guild_experiment \<Rightarrow> population \<Rightarrow> guild \<Rightarrow> int option \<Rightarrow> error + int" where
  "population_bucket_for owner p g res0 =
     (case (case res0 of None \<Rightarrow> result_for owner g | Some r \<Rightarrow> Inr r) of
        Inl err \<Rightarrow> Inl err
      | Inr res \<Rightarrow>
          (case filters_loop g (pop_filters p) of
             Inl err \<Rightarrow> Inl err
           | Inr False \<Rightarrow> Inr (- 1)
           | Inr True \<Rightarrow> Inr (rollouts_loop (pop_rollouts p) res)))"

section \<open>Guild experiments\<close>

text \<open>
  \<^verbatim>\<open>__eq__\<close> answers \<^verbatim>\<open>NotImplemented\<close> (here \<open>None\<close>) for an object of another class.
\<close>

datatype py_object =
    GuildExperimentObj guild_experiment
  | UserExperimentObj user_experiment
  | OtherObj

fun guild_experiment_eq :: "guild_experiment \<Rightarrow> py_object \<Rightarrow> bool option" where
  "guild_experiment_eq e (GuildExperimentObj other) = Some (ge_hash e = ge_hash other)"
| "guild_experiment_eq e other = None"

definition guild_experiment_hash :: "guild_experiment \<Rightarrow> int" where
  "guild_experiment_hash e = ge_hash e"

text \<open>The setter of \<^verbatim>\<open>GuildExperiment.name\<close>; it returns the object as the call leaves it.\<close>

definition guild_set_name :: "guild_experiment \<Rightarrow> string option \<Rightarrow> error + guild_experiment" where
  "guild_set_name e v =
     (if \<not> truthy_str v then Inr (e\<lparr>ge_name := None\<rparr>)
      else if murmurhash32 (the v) False \<noteq> ge_hash e then Inl NameMismatch
      else Inr (e\<lparr>ge_name := v\<rparr>))"

text \<open>
  The loop over \<^verbatim>\<open>self.overrides\<close>: the bucket of the first override that holds the
  guild's id or its owner's id (\<^verbatim>\<open>None in ids\<close> is false), \<open>None\<close> when the loop ends
  without returning.
\<close>

fun overrides_loop :: "guild \<Rightarrow> override list \<Rightarrow> int option" where
  "overrides_loop g [] = None"
| "overrides_loop g (ov # ovs) =
     (if guild_id g \<in> set (ov_ids ov)
         \<or> (case owner_id g of None \<Rightarrow> False | Some oid \<Rightarrow> oid \<in> set (ov_ids ov))
      then Some (ov_bucket ov)
      else overrides_loop g ovs)"

text \<open>
  A loop over populations, as the two of \<^verbatim>\<open>GuildExperiment.bucket_for\<close>: the first
  bucket that is not -1 is returned, an exception ends the call, and \<open>Inr (-1)\<close> stands
  for a loop that ends without returning.
\<close>

fun populations_loop ::
  "guild_experiment \<Rightarrow> guild \<Rightarrow> int \<Rightarrow> population list \<Rightarrow> error + int" where
  "populations_loop e g hash_result [] = Inr (- 1)"
| "populations_loop e g hash_result (p # ps) =
     (case population_bucket_for e p g (Some hash_result) of
        Inl err \<Rightarrow> Inl err
      | Inr pop_bucket \<Rightarrow>
          (if pop_bucket \<noteq> - 1 then Inr pop_bucket else populations_loop e g hash_result ps))"

fun overrides_formatted_loop ::
  "guild_experiment \<Rightarrow> guild \<Rightarrow> int \<Rightarrow> population list list \<Rightarrow> error + int" where
  "overrides_formatted_loop e g hash_result [] = Inr (- 1)"
| "overrides_formatted_loop e g hash_result (overrides # rest) =
     (case populations_loop e g hash_result overrides of
        Inl err \<Rightarrow> Inl err
      | Inr pop_bucket \<Rightarrow>
          (if pop_bucket \<noteq> - 1 then Inr pop_bucket
           else overrides_formatted_loop e g hash_result rest))"

text \<open>
  \<^verbatim>\<open>GuildExperiment.bucket_for\<close> from the line \<^verbatim>\<open>hash_result = self.result_for(guild)\<close>
  on: nothing below that line writes to the state.
\<close>

definition bucket_for_tail :: "guild_experiment \<Rightarrow> guild \<Rightarrow> error + int" where
  "bucket_for_tail e g =
     (case result_for e g of
        Inl err \<Rightarrow> Inl err
      | Inr hash_result \<Rightarrow>
          (case overrides_loop g (ge_overrides e) of
             Some b \<Rightarrow> Inr b
           | None \<Rightarrow>
               (case overrides_formatted_loop e g hash_result (ge_overrides_formatted e) of
                  Inl err \<Rightarrow> Inl err
                | Inr pop_bucket \<Rightarrow>
                    (if pop_bucket \<noteq> - 1 then Inr pop_bucket
                     else populations_loop e g hash_result (ge_populations e)))))"

text \<open>
  The property \<^verbatim>\<open>HoldoutExperiment.experiment\<close>: the lookup in the registry, and the
  write to the \<^verbatim>\<open>_name\<close> of the object found when its name is falsy.
\<close>

definition holdout_experiment :: "connection_state \<Rightarrow> holdout \<Rightarrow> nat option \<times> connection_state" where
  "holdout_experiment st h =
     (let experiment_hash = murmurhash32 (ho_name h) False
      in case guild_experiments st experiment_hash of
           None \<Rightarrow> (None, st)
         | Some a \<Rightarrow>
             (if \<not> truthy_str (ge_name (objects st a))
              then (Some a, st\<lparr>objects := (objects st)(a := (objects st a)\<lparr>ge_name := Some (ho_name h)\<rparr>)\<rparr>)
              else (Some a, st)))"

text \<open>
  \<^verbatim>\<open>GuildExperiment.bucket_for\<close> and \<^verbatim>\<open>HoldoutExperiment.is_eligible\<close> call each other
  through the registry, and a cycle of dependencies never returns. The first argument
  bounds the depth of nested calls of \<^verbatim>\<open>bucket_for\<close>; \<open>None\<close> is a call that needs
  more. The experiment is given by its address; the state comes back with the result,
  also when the call raises.
\<close>

fun bucket_for ::
    "nat \<Rightarrow> connection_state \<Rightarrow> nat \<Rightarrow> guild \<Rightarrow> ((error + int) \<times> connection_state) option"
  and is_eligible ::
    "nat \<Rightarrow> connection_state \<Rightarrow> holdout \<Rightarrow> guild \<Rightarrow> ((error + bool) \<times> connection_state) option"
  where
  "bucket_for 0 st a g = None"
| "bucket_for (Suc n) st a g =
     (if ge_aa_mode (objects st a) then Some (Inr (- 1), st)
      else case ge_holdout (objects st a) of
             None \<Rightarrow> Some (bucket_for_tail (objects st a) g, st)
           | Some h \<Rightarrow>
               (case is_eligible n st h g of
                  None \<Rightarrow> None
                | Some (Inl err, st') \<Rightarrow> Some (Inl err, st')
                | Some (Inr eligible, st') \<Rightarrow>
                    (if \<not> eligible then Some (Inr (- 1), st')
                     else Some (bucket_for_tail (objects st' a) g, st'))))"
| "is_eligible n st h g =
     (case holdout_experiment st h of
        (None, st') \<Rightarrow> Some (Inr True, st')
      | (Some a, st') \<Rightarrow>
          (case bucket_for n st' a g of
             None \<Rightarrow> None
           | Some (Inl err, st'') \<Rightarrow> Some (Inl err, st'')
           | Some (Inr b, st'') \<Rightarrow> Some (Inr (b = ho_bucket h), st'')))"


section \<open>User experiments\<close>

fun user_experiment_eq :: "user_experiment \<Rightarrow> py_object \<Rightarrow> bool option" where
  "user_experiment_eq e (UserExperimentObj other) = Some (ue_hash e = ue_hash other)"
| "user_experiment_eq e other = None"

definition user_experiment_hash :: "user_experiment \<Rightarrow> int" where
  "user_experiment_hash e = ue_hash e"


text \<open>The property \<^verbatim>\<open>UserExperiment.bucket\<close>.\<close>

definition user_bucket :: "user_experiment \<Rightarrow> int" where
  "user_bucket e =
     (if ue_aa_mode e then - 1
      else if ue_override e \<noteq> - 1 then ue_override e else ue_population e)"

text \<open>
  The property \<^verbatim>\<open>UserExperiment.result\<close>; \<open>self_id\<close> is \<^verbatim>\<open>self._state.self_id\<close>, the id
  of the user of the connection.
\<close>

definition user_result :: "int \<Rightarrow> user_experiment \<Rightarrow> error + int" where
  "user_result self_id e =
     (if truthy_int (ue_result e) then Inr (the (ue_result e))
      else if \<not> truthy_str (ue_name e) then Inl NameRequired
      else Inr (murmurhash32 (the (ue_name e) @ '':'' @ str_int self_id) False mod 10000))"

section \<open>Example objects\<close>

text \<open>
  The objects the concrete instances below are evaluated on. \<open>example_experiment\<close> is
  the experiment of the spec's example: no holdout, one override of bucket 7 for the id
  42, one population without filters whose rollout gives bucket 3 to every position. Its
  name is \<^verbatim>\<open>abc\<close>, whose hash is 3017643002.
\<close>

definition example_guild :: "int \<Rightarrow> guild" where
  "example_guild i =
     \<lparr>guild_id = i, owner_id = None, features = [], member_count = None, vanity_url_code = None\<rparr>"

definition example_population :: population where
  "example_population =
     \<lparr>pop_filters = [],
      pop_rollouts = [\<lparr>rollout_bucket = 3, rollout_ranges = [(0, 9999)]\<rparr>]\<rparr>"

definition example_experiment :: guild_experiment where
  "example_experiment =
     \<lparr>ge_hash = 3017643002, ge_name = Some ''abc'', ge_revision = 0,
      ge_populations = [example_population],
      ge_overrides = [\<lparr>ov_bucket = 7, ov_ids = [42]\<rparr>],
      ge_overrides_formatted = [], ge_holdout = None, ge_aa_mode = False\<rparr>"

definition example_user :: user_experiment where
  "example_user =
     \<lparr>ue_name = None, ue_hash = 3017643002, ue_revision = 0, ue_assignment = 1,
      ue_override = - 1, ue_population = 0, ue_result = Some 0, ue_aa_mode = False\<rparr>"

text \<open>
  A dependency registered under the hash 3135815259 of its name \<^verbatim>\<open>dep\<close>, the name itself
  not yet known; it gives bucket 1 to the positions up to 4999. In \<open>example_state\<close>
  the object 0 is the example experiment with a holdout on bucket 1 of \<^verbatim>\<open>dep\<close>, the
  object 1 is the dependency, the object 2 (as every object not listed) is the example
  experiment itself, the object 3 is the example experiment without its population, the
  object 4 is the example experiment with two more populations in
  \<^verbatim>\<open>overrides_formatted\<close> (the first for guild 7 only, the second giving bucket 5 to the
  positions 4000 to 4999), and the object 5 is the example experiment without its name.
\<close>

definition example_dependency :: guild_experiment where
  "example_dependency =
     \<lparr>ge_hash = 3135815259, ge_name = None, ge_revision = 0,
      ge_populations =
        [\<lparr>pop_filters = [], pop_rollouts = [\<lparr>rollout_bucket = 1, rollout_ranges = [(0, 4999)]\<rparr>]\<rparr>],
      ge_overrides = [], ge_overrides_formatted = [], ge_holdout = None, ge_aa_mode = False\<rparr>"

definition example_holdout :: holdout where
  "example_holdout = \<lparr>ho_name = ''dep'', ho_bucket = 1\<rparr>"

definition example_state :: connection_state where
  "example_state =
     \<lparr>objects = (\<lambda>_. example_experiment)
        (0 := example_experiment\<lparr>ge_holdout := Some example_holdout\<rparr>,
         1 := example_dependency,
         3 := example_experiment\<lparr>ge_populations := []\<rparr>,
         4 := example_experiment\<lparr>ge_overrides_formatted :=
                [[], [example_population\<lparr>pop_filters := [Ids [7]]\<rparr>,
                      example_population\<lparr>pop_rollouts :=
                        [\<lparr>rollout_bucket = 5, rollout_ranges = [(4000, 4999)]\<rparr>]\<rparr>]]\<rparr>,
         5 := example_experiment\<lparr>ge_name := None\<rparr>),
      guild_experiments = [3135815259 \<mapsto> 1]\<rparr>"

text \<open>\<open>example_state\<close> once the name of the dependency is filled in.\<close>

definition example_state_filled :: connection_state where
  "example_state_filled =
     example_state\<lparr>objects := (objects example_state)
        (1 := example_dependency\<lparr>ge_name := Some ''dep''\<rparr>)\<rparr>"



section \<open>Properties\<close>

subsection \<open>Values of the hash\<close>

lemma murmurhash32_abc: "murmurhash32 ''abc'' False = 3017643002"
  by (simp add: murmurhash32_def fmix_def mix_k_def mix_h_def rotl32_def byte_def)

lemma murmurhash32_abd: "murmurhash32 ''abd'' False \<noteq> 3017643002"
  by (simp add: murmurhash32_def fmix_def mix_k_def mix_h_def rotl32_def byte_def)

lemma murmurhash32_k2: "murmurhash32 ''k:2'' False = 4268129242"
  by (simp add: murmurhash32_def fmix_def mix_k_def mix_h_def rotl32_def byte_def)

lemma str_int_2: "str_int 2 = ''2''"
  by (simp add: str_int_def str_nat.simps digit_char_def)

lemma str_int_42: "str_int 42 = ''42''"
  by (simp add: str_int_def str_nat.simps digit_char_def)

lemma str_int_99: "str_int 99 = ''99''"
  by (simp add: str_int_def str_nat.simps digit_char_def)

lemma murmurhash32_dep: "murmurhash32 ''dep'' False = 3135815259"
  by (simp add: murmurhash32_def fmix_def mix_k_def mix_h_def rotl32_def byte_def)

lemma murmurhash32_dep_42: "murmurhash32 ''dep:42'' False mod 10000 = 5532"
  by (simp add: murmurhash32_def fmix_def mix_k_def mix_h_def rotl32_def byte_def)

lemma murmurhash32_dep_99: "murmurhash32 ''dep:99'' False mod 10000 = 2855"
  by (simp add: murmurhash32_def fmix_def mix_k_def mix_h_def rotl32_def byte_def)

lemma murmurhash32_abc_2: "murmurhash32 ''abc:2'' False mod 10000 = 7792"
  by (simp add: murmurhash32_def fmix_def mix_k_def mix_h_def rotl32_def byte_def)

lemma murmurhash32_abc_42: "murmurhash32 ''abc:42'' False mod 10000 = 6227"
  by (simp add: murmurhash32_def fmix_def mix_k_def mix_h_def rotl32_def byte_def)

lemma murmurhash32_abc_99: "murmurhash32 ''abc:99'' False mod 10000 = 4402"
  by (simp add: murmurhash32_def fmix_def mix_k_def mix_h_def rotl32_def byte_def)


lemma murmurhash32_k42: "murmurhash32 ''k:42'' False = 1172009526"
  by (simp add: murmurhash32_def fmix_def mix_k_def mix_h_def rotl32_def byte_def)

lemma murmurhash32_unsigned_range:
  "0 \<le> murmurhash32 s False \<and> murmurhash32 s False < 2 ^ 32"
  using uint_bounded [where 'a = 32] by (simp add: murmurhash32_def Let_def)

subsection \<open>User experiments\<close>

text \<open>
  C2. The claim has \<^verbatim>\<open>UserExperiment.bucket\<close> fall back to the field \<^verbatim>\<open>assignment\<close>
  when \<^verbatim>\<open>override\<close> is -1. The property returns \<^verbatim>\<open>self.population\<close> there: for a user
  experiment outside A/A mode with override -1, assignment 1 and population 0 it
  returns 0, not 1.
\<close>

theorem user_bucket_falls_back_to_population:
  "user_bucket example_user = 0 \<and> ue_assignment example_user = 1
   \<and> ue_override example_user = - 1 \<and> \<not> ue_aa_mode example_user"
  by (simp add: user_bucket_def example_user_def)

text \<open>
  C6. The claim has \<^verbatim>\<open>UserExperiment.result\<close> return a precomputed result whatever its
  value. The property tests \<^verbatim>\<open>if self._result\<close>, so a precomputed position 0 counts as
  absent: with no name set the call raises the name-required error instead of
  returning 0.
\<close>

theorem user_result_zero_is_absent:
  "ue_result example_user = Some 0 \<and> user_result 1 example_user = Inl NameRequired"
  by (simp add: user_result_def example_user_def truthy_int_def truthy_str_def)

subsection \<open>Filters\<close>

text \<open>
  C3. The claim has an id range with a start reject a guild whose id is below the
  start. In \<^verbatim>\<open>ExperimentPopulation.bucket_for\<close> the \<^verbatim>\<open>elif guild.id <= end\<close> lets
  every id up to the end through, so the lower bound is never enforced: with the range
  100 to 200 the guild 50 passes the filter, and the population returns the bucket 3 of
  its rollout, not -1.
\<close>

theorem id_range_lower_bound_not_enforced:
  "filter_step (example_guild 50) (IdRange (Some 100) 200) = Inr True
   \<and> population_bucket_for example_experiment
        (example_population\<lparr>pop_filters := [IdRange (Some 100) 200]\<rparr>)
        (example_guild 50) (Some 0) = Inr 3"
  by (simp add: population_bucket_for_def example_population_def example_guild_def)

text \<open>
  \<open>str_int\<close> writes exactly the decimal numeral: \<open>decimal_int\<close> reads \<open>str_int i\<close> back
  as \<open>i\<close>, and a string that \<open>decimal_int\<close> reads as \<open>i\<close> is \<open>str_int i\<close>.
\<close>

lemma digit_char_props:
  "d < 10 \<Longrightarrow> is_digit (digit_char d) \<and> digit_value (digit_char d) = d
     \<and> (digit_char d = CHR ''0'' \<longleftrightarrow> d = 0) \<and> digit_char d \<noteq> CHR ''-''"
proof -
  have "\<forall>d \<in> set [0..<10]. is_digit (digit_char d) \<and> digit_value (digit_char d) = d
     \<and> (digit_char d = CHR ''0'' \<longleftrightarrow> d = 0) \<and> digit_char d \<noteq> CHR ''-''"
    by (simp add: upt_rec is_digit_def digit_value_def digit_char_def)
  then show "d < 10 \<Longrightarrow> ?thesis" by simp
qed

lemma is_digit_props:
  "is_digit c \<Longrightarrow> digit_value c < 10 \<and> digit_char (digit_value c) = c \<and> c \<noteq> CHR ''-''"
  by (auto simp: is_digit_def digit_value_def digit_char_def)

lemma str_nat_digits:
  "str_nat n \<noteq> [] \<and> list_all is_digit (str_nat n)
   \<and> foldl (\<lambda>acc c. 10 * acc + digit_value c) 0 (str_nat n) = n
   \<and> (hd (str_nat n) = CHR ''0'' \<longrightarrow> n = 0)"
proof (induction n rule: str_nat.induct)
  case (1 n)
  show ?case
  proof (cases "n < 10")
    case True
    then show ?thesis
      using digit_char_props [of n] by (simp add: str_nat.simps [of n])
  next
    case False
    then have eq: "str_nat n = str_nat (n div 10) @ [digit_char (n mod 10)]"
      by (simp add: str_nat.simps [of n])
    have d: "n mod 10 < 10" by simp
    from False have pos: "n div 10 \<noteq> 0" by simp
    from "1.IH" [OF False] pos digit_char_props [OF d] show ?thesis
      by (simp add: eq)
  qed
qed

lemma str_nat_0: "str_nat 0 = ''0''"
  by (simp add: str_nat.simps digit_char_def)

lemma decimal_nat_str_nat: "decimal_nat (str_nat n) = Some n"
  using str_nat_digits [of n] str_nat_0 by (auto simp: decimal_nat_def)

lemma str_nat_no_minus: "hd (str_nat n) \<noteq> CHR ''-''"
  using str_nat_digits [of n] is_digit_props [of "hd (str_nat n)"]
  by (cases "str_nat n") auto

lemma decimal_int_str_int: "decimal_int (str_int i) = Some i"
proof (cases "i < 0")
  case True
  then show ?thesis
    by (simp add: decimal_int_def str_int_def decimal_nat_str_nat)
next
  case False
  obtain c r where cr: "str_nat (nat i) = c # r"
    using str_nat_digits [of "nat i"] by (cases "str_nat (nat i)") auto
  with str_nat_no_minus [of "nat i"] have "c \<noteq> CHR ''-''" by simp
  with False cr decimal_nat_str_nat [of "nat i"] show ?thesis
    by (simp add: decimal_int_def str_int_def)
qed

lemma foldl_digits_ge:
  "a \<le> foldl (\<lambda>acc c. 10 * acc + digit_value c) a s"
proof (induction s arbitrary: a)
  case Nil
  then show ?case by simp
next
  case (Cons c s)
  have "a \<le> 10 * a + digit_value c" by simp
  also have "\<dots> \<le> foldl (\<lambda>acc c. 10 * acc + digit_value c) (10 * a + digit_value c) s"
    by (rule Cons.IH)
  finally show ?case by simp
qed

lemma digit_value_pos: "is_digit c \<Longrightarrow> c \<noteq> CHR ''0'' \<Longrightarrow> 0 < digit_value c"
  by (auto simp: is_digit_def digit_value_def)

lemma foldl_digits_pos:
  assumes "s \<noteq> []" and "is_digit (hd s)" and "hd s \<noteq> CHR ''0''"
  shows "0 < foldl (\<lambda>acc c. 10 * acc + digit_value c) 0 s"
proof -
  obtain c r where s: "s = c # r" using assms(1) by (cases s) auto
  with assms have "0 < digit_value c" by (simp add: digit_value_pos)
  also have "digit_value c \<le> foldl (\<lambda>acc c. 10 * acc + digit_value c) (digit_value c) r"
    by (rule foldl_digits_ge)
  finally show ?thesis using s by simp
qed

lemma str_nat_foldl_digits:
  "s \<noteq> [] \<Longrightarrow> list_all is_digit s \<Longrightarrow> (hd s = CHR ''0'' \<longrightarrow> s = ''0'') \<Longrightarrow>
   str_nat (foldl (\<lambda>acc c. 10 * acc + digit_value c) 0 s) = s"
proof (induction s rule: rev_induct)
  case Nil
  then show ?case by simp
next
  case (snoc c xs)
  from snoc.prems(2) have dc: "is_digit c" and dxs: "list_all is_digit xs" by simp_all
  show ?case
  proof (cases "xs = []")
    case True
    with is_digit_props [OF dc] show ?thesis
      by (simp add: str_nat.simps [of "digit_value c"])
  next
    case False
    then have hd_eq: "hd (xs @ [c]) = hd xs" by simp
    from False snoc.prems(3) have nz: "hd xs \<noteq> CHR ''0''"
      by (cases xs) auto
    from False dxs have dh: "is_digit (hd xs)" by (cases xs) auto
    let ?v = "foldl (\<lambda>acc c. 10 * acc + digit_value c) 0 xs"
    have pos: "0 < ?v" using False dh nz by (rule foldl_digits_pos)
    have ih: "str_nat ?v = xs" using snoc.IH False dxs nz by simp
    have val: "foldl (\<lambda>acc c. 10 * acc + digit_value c) 0 (xs @ [c]) = 10 * ?v + digit_value c"
      by simp
    from is_digit_props [OF dc] have lt: "digit_value c < 10" and inv: "digit_char (digit_value c) = c"
      by simp_all
    from pos have big: "\<not> 10 * ?v + digit_value c < 10" by simp
    from lt have dv: "(10 * ?v + digit_value c) div 10 = ?v" and md: "(10 * ?v + digit_value c) mod 10 = digit_value c"
      by simp_all
    show ?thesis
      unfolding val using big dv md ih inv
      by (simp add: str_nat.simps [of "10 * ?v + digit_value c"])
  qed
qed

lemma decimal_nat_unique: "decimal_nat s = Some n \<Longrightarrow> str_nat n = s"
  using str_nat_foldl_digits [of s] by (auto simp: decimal_nat_def split: if_splits)

lemma decimal_nat_no_minus: "decimal_nat (c # r) = Some n \<Longrightarrow> c \<noteq> CHR ''-''"
  using is_digit_props [of c] by (auto simp: decimal_nat_def split: if_splits)

lemma decimal_int_unique: "decimal_int s = Some i \<Longrightarrow> str_int i = s"
proof (cases s)
  case Nil
  assume "decimal_int s = Some i"
  with Nil show ?thesis by (simp add: decimal_int_def)
next
  case (Cons c r)
  assume a: "decimal_int s = Some i"
  show ?thesis
  proof (cases "c = CHR ''-''")
    case True
    with a Cons obtain n where n: "decimal_nat r = Some n" "n \<noteq> 0" "i = - int n"
      by (auto simp: decimal_int_def split: option.splits if_splits)
    then show ?thesis
      using decimal_nat_unique [OF n(1)] Cons True by (simp add: str_int_def)
  next
    case False
    with a Cons obtain n where n: "decimal_nat s = Some n" "i = int n"
      by (auto simp: decimal_int_def)
    then show ?thesis
      using decimal_nat_unique [OF n(1)] by (simp add: str_int_def)
  qed
qed

text \<open>
  C4. For every guild, the hash-range filter takes \<open>h\<close>, the unsigned 32-bit hash
  (\<open>0 \<le> h < 2^32\<close>) of the string \<^verbatim>\<open><key>:<id>\<close>, where \<^verbatim>\<open><id>\<close> is the decimal numeral
  of the guild's id (there is one, and the statement is about every string that reads
  as the id); it replaces \<open>h\<close> by \<open>h + h\<close> with no modulus when \<open>h > 0\<close> and by
  \<open>h mod 2^32\<close> otherwise, and lets the guild through exactly when the outcome modulo
  10000 is below the target.
\<close>

theorem hash_range_filter:
  "(\<exists>s. decimal_int s = Some (guild_id g))
   \<and> (\<forall>s. decimal_int s = Some (guild_id g) \<longrightarrow>
        filter_step g (HashRange hash_key target) =
          Inr ((let h = murmurhash32 (hash_key @ '':'' @ s) False
                in if h > 0 then h + h else h mod 2 ^ 32) mod 10000 < target)
        \<and> 0 \<le> murmurhash32 (hash_key @ '':'' @ s) False
        \<and> murmurhash32 (hash_key @ '':'' @ s) False < 2 ^ 32)"
proof (intro conjI allI impI)
  show "\<exists>s. decimal_int s = Some (guild_id g)"
    using decimal_int_str_int by blast
next
  fix s
  assume "decimal_int s = Some (guild_id g)"
  then have "str_int (guild_id g) = s" by (rule decimal_int_unique)
  then show "filter_step g (HashRange hash_key target) =
          Inr ((let h = murmurhash32 (hash_key @ '':'' @ s) False
                in if h > 0 then h + h else h mod 2 ^ 32) mod 10000 < target)"
    by (auto simp: Let_def)
next
  fix s
  show "0 \<le> murmurhash32 (hash_key @ '':'' @ s) False"
    using murmurhash32_unsigned_range [of "hash_key @ '':'' @ s"] by simp
next
  fix s
  show "murmurhash32 (hash_key @ '':'' @ s) False < 2 ^ 32"
    using murmurhash32_unsigned_range [of "hash_key @ '':'' @ s"] by simp
qed

lemma decimal_int_examples:
  "decimal_int ''2'' = Some (guild_id (example_guild 2))"
  "decimal_int ''42'' = Some (guild_id (example_guild 42))"
  by (simp_all add: decimal_int_def decimal_nat_def is_digit_def digit_value_def example_guild_def)

text \<open>
  Under the key \<^verbatim>\<open>k\<close>, the guild 2 hashes \<^verbatim>\<open>k:2\<close> to 4268129242, whose double
  8536258484 is beyond 32 bits and is 8484 modulo 10000 (a double cut to 32 bits would
  give 1188): the filter refuses it at the target 8484 and lets it through at 8485. The
  guild 42 hashes \<^verbatim>\<open>k:42\<close> to 1172009526, whose double is 9052 modulo 10000: refused at
  8485, let through at 9053.
\<close>

theorem hash_range_filter_witness:
  "filter_step (example_guild 2) (HashRange ''k'' 8484) = Inr False
   \<and> filter_step (example_guild 2) (HashRange ''k'' 8485) = Inr True
   \<and> filter_step (example_guild 42) (HashRange ''k'' 8485) = Inr False
   \<and> filter_step (example_guild 42) (HashRange ''k'' 9053) = Inr True
   \<and> murmurhash32 ''k:2'' False + murmurhash32 ''k:2'' False = 8536258484"
proof -
  have "filter_step (example_guild 2) (HashRange ''k'' 8484) = Inr False"
    using hash_range_filter [of "example_guild 2" "''k''" 8484] decimal_int_examples(1)
      murmurhash32_k2 by (auto simp: Let_def)
  moreover have "filter_step (example_guild 2) (HashRange ''k'' 8485) = Inr True"
    using hash_range_filter [of "example_guild 2" "''k''" 8485] decimal_int_examples(1)
      murmurhash32_k2 by (auto simp: Let_def)
  moreover have "filter_step (example_guild 42) (HashRange ''k'' 8485) = Inr False"
    using hash_range_filter [of "example_guild 42" "''k''" 8485] decimal_int_examples(2)
      murmurhash32_k42 by (auto simp: Let_def)
  moreover have "filter_step (example_guild 42) (HashRange ''k'' 9053) = Inr True"
    using hash_range_filter [of "example_guild 42" "''k''" 9053] decimal_int_examples(2)
      murmurhash32_k42 by (auto simp: Let_def)
  ultimately show ?thesis
    using murmurhash32_k2 by simp
qed

lemma filters_loop_unknown:
  "\<forall>f \<in> set pre. filter_step g f = Inr True \<Longrightarrow>
   filters_loop g (pre @ UnknownType t # post) = Inl (UnknownFilterType t)"
  by (induction pre) simp_all

text \<open>
  C7. A population whose filters hold a clause of a type outside the enumeration, every
  filter before it letting the guild through: \<^verbatim>\<open>ExperimentPopulation.bucket_for\<close> raises
  the error for that type, and so returns no bucket, neither -1 nor one of a rollout.
  The clause is reached when a position was passed in or the owning experiment has a
  name (without either, the call raises the name-required error before the first filter).
\<close>

theorem unknown_filter_raises:
  assumes "pop_filters p = pre @ UnknownType t # post"
    and "\<forall>f \<in> set pre. filter_step g f = Inr True"
    and "res0 = None \<longrightarrow> truthy_str (ge_name owner)"
  shows "population_bucket_for owner p g res0 = Inl (UnknownFilterType t)
         \<and> (\<forall>b. population_bucket_for owner p g res0 \<noteq> Inr b)"
  using assms filters_loop_unknown [of pre g t post]
  by (cases res0) (simp_all add: population_bucket_for_def result_for_def)

theorem unknown_filter_raises_witness:
  "population_bucket_for example_experiment
     (example_population\<lparr>pop_filters := [HubType, Ids [42], UnknownType 5, Ids []]\<rparr>)
     (example_guild 42) None = Inl (UnknownFilterType 5)
   \<and> population_bucket_for example_experiment
     (example_population\<lparr>pop_filters := [UnknownType 5]\<rparr>)
     (example_guild 42) (Some 0) = Inl (UnknownFilterType 5)"
  using unknown_filter_raises [of "example_population\<lparr>pop_filters := [HubType, Ids [42], UnknownType 5, Ids []]\<rparr>"
      "[HubType, Ids [42]]" 5 "[Ids []]" "example_guild 42" None example_experiment]
    unknown_filter_raises [of "example_population\<lparr>pop_filters := [UnknownType 5]\<rparr>"
      "[]" 5 "[]" "example_guild 42" "Some 0" example_experiment]
  by (simp add: example_guild_def example_experiment_def truthy_str_def)

subsection \<open>Names, equality and hashing\<close>

text \<open>
  C8. Setting the name of a guild experiment to a non-empty string \<open>s\<close> raises, and
  raises the name-mismatch error, exactly when the unsigned hash of \<open>s\<close> differs from
  the field \<^verbatim>\<open>hash\<close>. When the hashes agree the call succeeds, stores \<open>s\<close>, leaves
  \<^verbatim>\<open>hash\<close> as it was, and setting \<open>s\<close> once more succeeds and changes nothing.
\<close>

theorem guild_name_setter:
  assumes "s \<noteq> []"
  shows "(guild_set_name e (Some s) = Inl NameMismatch \<longleftrightarrow> murmurhash32 s False \<noteq> ge_hash e)
   \<and> (isl (guild_set_name e (Some s)) \<longleftrightarrow> murmurhash32 s False \<noteq> ge_hash e)
   \<and> (murmurhash32 s False = ge_hash e \<longrightarrow>
        guild_set_name e (Some s) = Inr (e\<lparr>ge_name := Some s\<rparr>)
        \<and> ge_hash (e\<lparr>ge_name := Some s\<rparr>) = ge_hash e
        \<and> guild_set_name (e\<lparr>ge_name := Some s\<rparr>) (Some s) = Inr (e\<lparr>ge_name := Some s\<rparr>))"
  using assms by (simp add: guild_set_name_def truthy_str_def)

theorem guild_name_setter_witness:
  "guild_set_name (example_experiment\<lparr>ge_name := None\<rparr>) (Some ''abc'') = Inr example_experiment
   \<and> guild_set_name example_experiment (Some ''abc'') = Inr example_experiment
   \<and> guild_set_name example_experiment (Some ''abd'') = Inl NameMismatch"
  using guild_name_setter [of "''abc''" "example_experiment\<lparr>ge_name := None\<rparr>"]
    guild_name_setter [of "''abc''" "example_experiment"]
    guild_name_setter [of "''abd''" example_experiment]
    murmurhash32_abc murmurhash32_abd
  by (simp add: example_experiment_def)

text \<open>
  C9. \<^verbatim>\<open>__eq__\<close> of a guild experiment against a guild experiment, and of a user
  experiment against a user experiment, is the equality of the two \<^verbatim>\<open>hash\<close> fields and
  of nothing else; \<^verbatim>\<open>__hash__\<close> is the \<^verbatim>\<open>hash\<close> field.
\<close>

theorem experiment_equality_by_hash:
  "guild_experiment_eq e1 (GuildExperimentObj e2) = Some (ge_hash e1 = ge_hash e2)
   \<and> user_experiment_eq u1 (UserExperimentObj u2) = Some (ue_hash u1 = ue_hash u2)
   \<and> guild_experiment_hash e1 = ge_hash e1
   \<and> user_experiment_hash u1 = ue_hash u1"
  by (simp add: guild_experiment_hash_def user_experiment_hash_def)

text \<open>
  Two guild experiments that share only the hash, and two such user experiments, are
  equal; a change of the hash makes them differ.
\<close>

theorem experiment_equality_by_hash_witness:
  "guild_experiment_eq example_experiment
      (GuildExperimentObj \<lparr>ge_hash = 3017643002, ge_name = None, ge_revision = 9,
         ge_populations = [], ge_overrides = [], ge_overrides_formatted = [[example_population]],
         ge_holdout = Some \<lparr>ho_name = ''dep'', ho_bucket = 1\<rparr>, ge_aa_mode = True\<rparr>) = Some True
   \<and> guild_experiment_eq example_experiment
      (GuildExperimentObj (example_experiment\<lparr>ge_hash := 5\<rparr>)) = Some False
   \<and> user_experiment_eq example_user
      (UserExperimentObj \<lparr>ue_name = Some ''abc'', ue_hash = 3017643002, ue_revision = 4,
         ue_assignment = 2, ue_override = 3, ue_population = 5, ue_result = None,
         ue_aa_mode = True\<rparr>) = Some True
   \<and> guild_experiment_hash example_experiment = 3017643002
   \<and> user_experiment_hash example_user = 3017643002"
  using experiment_equality_by_hash [of example_experiment
      "\<lparr>ge_hash = 3017643002, ge_name = None, ge_revision = 9,
         ge_populations = [], ge_overrides = [], ge_overrides_formatted = [[example_population]],
         ge_holdout = Some \<lparr>ho_name = ''dep'', ho_bucket = 1\<rparr>, ge_aa_mode = True\<rparr>"
      example_user
      "\<lparr>ue_name = Some ''abc'', ue_hash = 3017643002, ue_revision = 4,
         ue_assignment = 2, ue_override = 3, ue_population = 5, ue_result = None,
         ue_aa_mode = True\<rparr>"]
    experiment_equality_by_hash [of example_experiment "example_experiment\<lparr>ge_hash := 5\<rparr>"
      example_user example_user]
  by (simp add: example_experiment_def example_user_def)

subsection \<open>Holdouts\<close>





text \<open>
  The bound on the depth only cuts calls short: a call that returns within the depth
  \<open>n\<close> returns the same result and state within any greater depth.
\<close>

lemma bucket_for_more_depth:
  "bucket_for n st a g = Some r \<Longrightarrow> n \<le> m \<Longrightarrow> bucket_for m st a g = Some r"
  "is_eligible n st h g = Some rb \<Longrightarrow> n \<le> m \<Longrightarrow> is_eligible m st h g = Some rb"
proof (induction n st a g and n st h g arbitrary: r m and rb m
    rule: bucket_for_is_eligible.induct)
  case (1 st a g)
  then show ?case by simp
next
  case (2 n st a g)
  from "2.prems"(2) obtain m' where m: "m = Suc m'" and le: "n \<le> m'"
    by (cases m) auto
  show ?case
  proof (cases "ge_aa_mode (objects st a)")
    case True
    with "2.prems" m show ?thesis by simp
  next
    case False
    show ?thesis
    proof (cases "ge_holdout (objects st a)")
      case None
      with False "2.prems" m show ?thesis by simp
    next
      case (Some h)
      with False "2.prems"(1) obtain rb where rb: "is_eligible n st h g = Some rb"
        by (auto split: option.splits)
      then have "is_eligible m' st h g = Some rb"
        using "2.IH" [OF False Some] le by blast
      with rb False Some "2.prems"(1) m show ?thesis by simp
    qed
  qed
next
  case (3 n st h g)
  obtain x st1 where he: "holdout_experiment st h = (x, st1)"
    by (cases "holdout_experiment st h")
  show ?case
  proof (cases x)
    case None
    with he "3.prems" show ?thesis by simp
  next
    case (Some a)
    with he "3.prems"(1) obtain r where r: "bucket_for n st1 a g = Some r"
      by (auto split: option.splits)
    then have "bucket_for m st1 a g = Some r"
      using "3.IH" [OF he [symmetric] Some] "3.prems"(2) by blast
    with r he Some "3.prems"(1) show ?thesis by simp
  qed
qed



text \<open>The dependency of \<open>example_state\<close>, evaluated for the guilds 99 and 42.\<close>

lemma dep_bucket_99:
  "bucket_for 1 example_state_filled 1 (example_guild 99) = Some (Inr 1, example_state_filled)"
  using murmurhash32_dep_99 str_int_99
  by (simp add: example_state_filled_def example_state_def example_dependency_def
      example_guild_def bucket_for_tail_def result_for_def truthy_str_def
      population_bucket_for_def)

lemma dep_bucket_42:
  "bucket_for 1 example_state_filled 1 (example_guild 42) = Some (Inr (- 1), example_state_filled)"
  using murmurhash32_dep_42 str_int_42
  by (simp add: example_state_filled_def example_state_def example_dependency_def
      example_guild_def bucket_for_tail_def result_for_def truthy_str_def
      population_bucket_for_def)

lemma example_state_lookup:
  "guild_experiments example_state (murmurhash32 (ho_name example_holdout) False) = Some 1"
  "guild_experiments example_state (murmurhash32 ''abc'' False) = None"
  "\<not> truthy_str (ge_name (objects example_state 1))"
  "example_state\<lparr>objects := (objects example_state)
      (1 := (objects example_state 1)\<lparr>ge_name := Some (ho_name example_holdout)\<rparr>)\<rparr> = example_state_filled"
  using murmurhash32_dep murmurhash32_abc
  by (simp_all add: example_state_def example_holdout_def example_dependency_def truthy_str_def
      example_state_filled_def)






subsection \<open>The order of precedence in a guild experiment\<close>

text \<open>The loops of \<^verbatim>\<open>GuildExperiment.bucket_for\<close> as searches for a first element.\<close>

lemma overrides_loop_find:
  "overrides_loop g ovs =
     map_option ov_bucket
       (find (\<lambda>ov. guild_id g \<in> set (ov_ids ov)
                \<or> (\<exists>oid. owner_id g = Some oid \<and> oid \<in> set (ov_ids ov))) ovs)"
  by (induction ovs) (auto split: option.splits)

lemma populations_loop_find:
  "populations_loop e g pos ps =
     (case find (\<lambda>r. r \<noteq> Inr (- 1)) (map (\<lambda>p. population_bucket_for e p g (Some pos)) ps) of
        Some r \<Rightarrow> r | None \<Rightarrow> Inr (- 1))"
  by (induction ps) (auto split: sum.splits)

lemma find_append_case:
  "find P (xs @ ys) = (case find P xs of Some x \<Rightarrow> Some x | None \<Rightarrow> find P ys)"
  by (induction xs) simp_all

lemma overrides_formatted_loop_find:
  "overrides_formatted_loop e g pos pss =
     (case find (\<lambda>r. r \<noteq> Inr (- 1))
             (map (\<lambda>p. population_bucket_for e p g (Some pos)) (concat pss)) of
        Some r \<Rightarrow> r | None \<Rightarrow> Inr (- 1))"
proof (induction pss)
  case Nil
  then show ?case by simp
next
  case (Cons ps pss)
  show ?case
  proof (cases "find (\<lambda>r. r \<noteq> Inr (- 1)) (map (\<lambda>p. population_bucket_for e p g (Some pos)) ps)")
    case None
    with Cons show ?thesis
      by (simp add: populations_loop_find find_append_case)
  next
    case (Some r)
    then have "r \<noteq> Inr (- 1)"
      by (auto simp: find_Some_iff)
    with Some show ?thesis
      by (cases r) (simp_all add: populations_loop_find find_append_case)
  qed
qed

lemma bucket_for_tail_find:
  "bucket_for_tail e g =
     (case result_for e g of
        Inl err \<Rightarrow> Inl err
      | Inr pos \<Rightarrow>
          (case find (\<lambda>ov. guild_id g \<in> set (ov_ids ov)
                       \<or> (\<exists>oid. owner_id g = Some oid \<and> oid \<in> set (ov_ids ov))) (ge_overrides e) of
             Some ov \<Rightarrow> Inr (ov_bucket ov)
           | None \<Rightarrow>
               (case find (\<lambda>r. r \<noteq> Inr (- 1))
                       (map (\<lambda>p. population_bucket_for e p g (Some pos))
                          (concat (ge_overrides_formatted e) @ ge_populations e)) of
                  Some r \<Rightarrow> r | None \<Rightarrow> Inr (- 1))))"
proof (cases "result_for e g")
  case (Inl err)
  then show ?thesis by (simp add: bucket_for_tail_def)
next
  case (Inr pos)
  show ?thesis
  proof (cases "find (\<lambda>r. r \<noteq> Inr (- 1))
      (map (\<lambda>p. population_bucket_for e p g (Some pos)) (concat (ge_overrides_formatted e)))")
    case None
    with Inr show ?thesis
      by (simp add: bucket_for_tail_def overrides_loop_find overrides_formatted_loop_find
          populations_loop_find find_append_case split: option.splits)
  next
    case (Some r)
    then have "r \<noteq> Inr (- 1)"
      by (auto simp: find_Some_iff)
    with Some Inr show ?thesis
      by (cases r) (simp_all add: bucket_for_tail_def overrides_loop_find
          overrides_formatted_loop_find find_append_case split: option.splits)
  qed
qed

text \<open>
  C1. \<^verbatim>\<open>GuildExperiment.bucket_for\<close>, for every guild and every depth allowed. In A/A mode
  the result is -1. Otherwise, with a holdout that is not eligible, the result is -1.
  Otherwise (no holdout, or an eligible one) the position is computed, and the call
  raises when that fails; then the first override whose ids hold the guild's id or its
  owner's id gives the result, whatever the populations are; and with no such override
  the result is the first outcome other than -1 among the populations of
  \<^verbatim>\<open>overrides_formatted\<close>, in order, followed by those of \<^verbatim>\<open>populations\<close>, and -1 when
  there is none.
\<close>

theorem guild_bucket_for_precedence:
  "(ge_aa_mode (objects st a) \<longrightarrow> bucket_for (Suc n) st a g = Some (Inr (- 1), st))
   \<and> (\<not> ge_aa_mode (objects st a) \<and> ge_holdout (objects st a) = Some h
        \<and> is_eligible n st h g = Some (Inr False, st') \<longrightarrow>
        bucket_for (Suc n) st a g = Some (Inr (- 1), st'))
   \<and> (\<not> ge_aa_mode (objects st a)
        \<and> (ge_holdout (objects st a) = None \<and> st' = st
            \<or> ge_holdout (objects st a) = Some h \<and> is_eligible n st h g = Some (Inr True, st')) \<longrightarrow>
        (\<forall>err. result_for (objects st' a) g = Inl err \<longrightarrow>
           bucket_for (Suc n) st a g = Some (Inl err, st'))
        \<and> (\<forall>pos. result_for (objects st' a) g = Inr pos \<longrightarrow>
             (\<forall>ov. find (\<lambda>ov. guild_id g \<in> set (ov_ids ov)
                            \<or> (\<exists>oid. owner_id g = Some oid \<and> oid \<in> set (ov_ids ov)))
                      (ge_overrides (objects st' a)) = Some ov \<longrightarrow>
                bucket_for (Suc n) st a g = Some (Inr (ov_bucket ov), st'))
             \<and> (find (\<lambda>ov. guild_id g \<in> set (ov_ids ov)
                            \<or> (\<exists>oid. owner_id g = Some oid \<and> oid \<in> set (ov_ids ov)))
                      (ge_overrides (objects st' a)) = None \<longrightarrow>
                bucket_for (Suc n) st a g =
                  Some (case find (\<lambda>r. r \<noteq> Inr (- 1))
                               (map (\<lambda>p. population_bucket_for (objects st' a) p g (Some pos))
                                  (concat (ge_overrides_formatted (objects st' a))
                                   @ ge_populations (objects st' a))) of
                          Some r \<Rightarrow> r | None \<Rightarrow> Inr (- 1), st'))))"
  by (auto simp: bucket_for_tail_find)

lemma example_is_eligible_99:
  "is_eligible 1 example_state example_holdout (example_guild 99) = Some (Inr True, example_state_filled)"
  using example_state_lookup dep_bucket_99
  by (simp add: holdout_experiment_def Let_def example_holdout_def)

lemma example_is_eligible_42:
  "is_eligible 1 example_state example_holdout (example_guild 42) = Some (Inr False, example_state_filled)"
  using example_state_lookup dep_bucket_42
  by (simp add: holdout_experiment_def Let_def example_holdout_def)

lemma example_state_objects:
  "objects example_state 0 = example_experiment\<lparr>ge_holdout := Some example_holdout\<rparr>"
  "objects example_state_filled 0 = example_experiment\<lparr>ge_holdout := Some example_holdout\<rparr>"
  "objects example_state 2 = example_experiment"
  "objects example_state 3 = example_experiment\<lparr>ge_populations := []\<rparr>"
  "objects example_state 4 = example_experiment\<lparr>ge_overrides_formatted :=
     [[], [example_population\<lparr>pop_filters := [Ids [7]]\<rparr>,
           example_population\<lparr>pop_rollouts :=
             [\<lparr>rollout_bucket = 5, rollout_ranges = [(4000, 4999)]\<rparr>]\<rparr>]]\<rparr>"
  "objects example_state 5 = example_experiment\<lparr>ge_name := None\<rparr>"
  by (simp_all add: example_state_def example_state_filled_def)

text \<open>
  A/A mode; the holdout of \<open>example_state\<close> refusing guild 42 (which the override
  names) and admitting guild 99; the experiment of the spec's example, where guild 42
  and a guild whose owner is 42 get the override's bucket 7 and guild 99 the bucket 3 of
  the population; the same without its population, where guild 42 still gets 7 and
  guild 99 gets -1; the populations of \<^verbatim>\<open>overrides_formatted\<close> giving guild 99, at
  position 4402, the bucket 5 before \<^verbatim>\<open>populations\<close> is looked at, guild 42 the
  override's 7 all the same, and guild 2, at position 7792, the bucket 3 of
  \<^verbatim>\<open>populations\<close>; and the experiment without a name, which raises.
\<close>

theorem guild_bucket_for_precedence_witness:
  "bucket_for 1 (example_state\<lparr>objects := (\<lambda>_. example_experiment\<lparr>ge_aa_mode := True\<rparr>)\<rparr>) 0
      (example_guild 42)
     = Some (Inr (- 1), example_state\<lparr>objects := (\<lambda>_. example_experiment\<lparr>ge_aa_mode := True\<rparr>)\<rparr>)
   \<and> bucket_for 2 example_state 0 (example_guild 42) = Some (Inr (- 1), example_state_filled)
   \<and> bucket_for 2 example_state 0 (example_guild 99) = Some (Inr 3, example_state_filled)
   \<and> bucket_for 1 example_state 2 (example_guild 42) = Some (Inr 7, example_state)
   \<and> bucket_for 1 example_state 2 ((example_guild 5)\<lparr>owner_id := Some 42\<rparr>) = Some (Inr 7, example_state)
   \<and> bucket_for 1 example_state 2 (example_guild 99) = Some (Inr 3, example_state)
   \<and> bucket_for 1 example_state 3 (example_guild 42) = Some (Inr 7, example_state)
   \<and> bucket_for 1 example_state 3 (example_guild 99) = Some (Inr (- 1), example_state)
   \<and> bucket_for 1 example_state 4 (example_guild 99) = Some (Inr 5, example_state)
   \<and> bucket_for 1 example_state 4 (example_guild 42) = Some (Inr 7, example_state)
   \<and> bucket_for 1 example_state 4 (example_guild 2) = Some (Inr 3, example_state)
   \<and> bucket_for 1 example_state 5 (example_guild 42) = Some (Inl NameRequired, example_state)"
  using
    guild_bucket_for_precedence [where st = "example_state\<lparr>objects := (\<lambda>_. example_experiment\<lparr>ge_aa_mode := True\<rparr>)\<rparr>"
      and a = 0 and n = 0 and g = "example_guild 42"]
    guild_bucket_for_precedence [where st = example_state and a = 0 and n = 1
      and g = "example_guild 42" and h = example_holdout and st' = example_state_filled]
    guild_bucket_for_precedence [where st = example_state and a = 0 and n = 1
      and g = "example_guild 99" and h = example_holdout and st' = example_state_filled]
    guild_bucket_for_precedence [where st = example_state and a = 2 and n = 0
      and g = "example_guild 42" and st' = example_state]
    guild_bucket_for_precedence [where st = example_state and a = 2 and n = 0
      and g = "(example_guild 5)\<lparr>owner_id := Some 42\<rparr>" and st' = example_state]
    guild_bucket_for_precedence [where st = example_state and a = 2 and n = 0
      and g = "example_guild 99" and st' = example_state]
    guild_bucket_for_precedence [where st = example_state and a = 3 and n = 0
      and g = "example_guild 42" and st' = example_state]
    guild_bucket_for_precedence [where st = example_state and a = 3 and n = 0
      and g = "example_guild 99" and st' = example_state]
    guild_bucket_for_precedence [where st = example_state and a = 4 and n = 0
      and g = "example_guild 99" and st' = example_state]
    guild_bucket_for_precedence [where st = example_state and a = 4 and n = 0
      and g = "example_guild 42" and st' = example_state]
    guild_bucket_for_precedence [where st = example_state and a = 4 and n = 0
      and g = "example_guild 2" and st' = example_state]
    guild_bucket_for_precedence [where st = example_state and a = 5 and n = 0
      and g = "example_guild 42" and st' = example_state]
    example_is_eligible_42 example_is_eligible_99 example_state_objects
    murmurhash32_abc_2 murmurhash32_abc_42 murmurhash32_abc_99 str_int_2 str_int_42 str_int_99
  by (simp add: example_experiment_def example_guild_def example_population_def
      population_bucket_for_def numeral_2_eq_2 result_for_def truthy_str_def)

subsection \<open>Unsetting the name\<close>







end
